theory Spec2Isabelle
  imports Main
begin

section \<open>Python values used by the status manager\<close>

text \<open>
  A Python class is identified by its name and carries its direct bases, so that the
  subclass test is structural recursion over the bases. Class objects compare by identity in
  Python; here two classes are the same exactly when name and bases coincide.
\<close>

datatype pyclass = Class (cname: string) (bases: "pyclass list")

fun issubclass :: "pyclass \<Rightarrow> pyclass \<Rightarrow> bool" where
  "issubclass (Class n bs) d = (Class n bs = d \<or> (\<exists>b \<in> set bs. issubclass b d))"

definition object_cls :: pyclass where
  "object_cls = Class ''object'' []"

definition type_cls :: pyclass where
  "type_cls = Class ''type'' [object_cls]"

definition NoneType :: pyclass where
  "NoneType = Class ''NoneType'' [object_cls]"

definition str_cls :: pyclass where
  "str_cls = Class ''str'' [object_cls]"

definition dict_cls :: pyclass where
  "dict_cls = Class ''dict'' [object_cls]"

definition BaseException :: pyclass where
  "BaseException = Class ''BaseException'' [object_cls]"

definition Exception :: pyclass where
  "Exception = Class ''Exception'' [BaseException]"

text \<open>The classes of \<^verbatim>\<open>exceptions/charm_status_exceptions.py\<close>.\<close>

definition BaseStatusError :: pyclass where
  "BaseStatusError = Class ''BaseStatusError'' [Exception]"

definition BlockedStatusError :: pyclass where
  "BlockedStatusError = Class ''BlockedStatusError'' [BaseStatusError]"

definition WaitingStatusError :: pyclass where
  "WaitingStatusError = Class ''WaitingStatusError'' [BaseStatusError]"

definition MaintenanceStatusError :: pyclass where
  "MaintenanceStatusError = Class ''MaintenanceStatusError'' [BaseStatusError]"

text \<open>
  The status classes that \<^verbatim>\<open>status_manager.py\<close> imports from the host framework:
  \<^verbatim>\<open>StatusBase\<close> and its four subclasses.
\<close>

definition StatusBase :: pyclass where
  "StatusBase = Class ''StatusBase'' [object_cls]"

definition ActiveStatus :: pyclass where
  "ActiveStatus = Class ''ActiveStatus'' [StatusBase]"

definition BlockedStatus :: pyclass where
  "BlockedStatus = Class ''BlockedStatus'' [StatusBase]"

definition MaintenanceStatus :: pyclass where
  "MaintenanceStatus = Class ''MaintenanceStatus'' [StatusBase]"

definition WaitingStatus :: pyclass where
  "WaitingStatus = Class ''WaitingStatus'' [StatusBase]"

text \<open>
  The objects that reach the code: \<^verbatim>\<open>None\<close>, a string, a class object, and the
  instances of a class \<open>c\<close> built from the one string \<open>m\<close> (for a status class, \<open>m\<close>
  is its message). An instance has the truth value its class gives it: \<open>Instance c m\<close> is
  an instance that is true, as every instance of a class defining neither \<^verbatim>\<open>__bool__\<close> nor
  \<^verbatim>\<open>__len__\<close> is; \<open>FalsyInstance c m\<close> is an instance of a class whose \<^verbatim>\<open>__bool__\<close> (or
  \<^verbatim>\<open>__len__\<close>) makes it false.
\<close>

datatype pyobj =
    NoneObj
  | StrObj string
  | ClassObj pyclass
  | Instance pyclass string
  | FalsyInstance pyclass string

fun type_of :: "pyobj \<Rightarrow> pyclass" where
  "type_of NoneObj = NoneType"
| "type_of (StrObj s) = str_cls"
| "type_of (ClassObj c) = type_cls"
| "type_of (Instance c m) = c"
| "type_of (FalsyInstance c m) = c"

definition isinstance :: "pyobj \<Rightarrow> pyclass \<Rightarrow> bool" where
  "isinstance x c = issubclass (type_of x) c"

text \<open>
  Truth value of an object, which \<^verbatim>\<open>a or b\<close> tests: \<^verbatim>\<open>None\<close> and the empty string are
  false, class objects are true, and an instance is true or false as its class makes it.
\<close>

fun truthy :: "pyobj \<Rightarrow> bool" where
  "truthy NoneObj = False"
| "truthy (StrObj s) = (s \<noteq> [])"
| "truthy (ClassObj c) = True"
| "truthy (Instance c m) = True"
| "truthy (FalsyInstance c m) = False"

definition py_or :: "pyobj \<Rightarrow> pyobj \<Rightarrow> pyobj" where
  "py_or a b = (if truthy a then a else b)"

text \<open>
  An exception instance: its class and the text \<^verbatim>\<open>str()\<close> gives for it.
\<close>

datatype exception = Exc (exc_class: pyclass) (exc_text: string)

text \<open>
  Error messages are kept as the f-string that builds them: literal text and the objects
  formatted into it.
\<close>

datatype msgpart = Text string | Fmt pyobj

type_synonym message = "msgpart list"

text \<open>
  What can propagate out of the code: a \<^verbatim>\<open>ValueError\<close>, a \<^verbatim>\<open>TypeError\<close> with its
  \<^verbatim>\<open>__cause__\<close> (set by \<^verbatim>\<open>raise ... from e\<close>), or the exception a task raised.
\<close>

datatype pyerr =
    ValueError message
  | TypeError message "pyerr option"
  | Raised exception

text \<open>The builtin \<^verbatim>\<open>issubclass\<close> raises \<^verbatim>\<open>TypeError\<close> when its first argument is not a class.\<close>

fun py_issubclass :: "pyobj \<Rightarrow> pyclass \<Rightarrow> pyerr + bool" where
  "py_issubclass (ClassObj c) d = Inr (issubclass c d)"
| "py_issubclass x d = Inl (TypeError [Text ''issubclass() arg 1 must be a class''] None)"

text \<open>
  Calling an object with one string argument. The constructor of the host's
  \<^verbatim>\<open>StatusBase\<close> raises \<^verbatim>\<open>TypeError\<close> when the class is \<^verbatim>\<open>StatusBase\<close> itself and stores
  the message otherwise; the four tier classes inherit it and define no truth value, so
  their instances are true. Any other class is taken to be instantiated the same way.
  An object that is no class is not callable.
\<close>

fun py_call :: "pyobj \<Rightarrow> string \<Rightarrow> pyerr + pyobj" where
  "py_call (ClassObj c) m =
     (if c = StatusBase then Inl (TypeError [Text ''cannot instantiate a base class''] None)
      else Inr (Instance c m))"
| "py_call x m = Inl (TypeError [Fmt x, Text '' object is not callable''] None)"

section \<open>The status map and its validation\<close>

text \<open>
  A dict is an association list in insertion order; \<^verbatim>\<open>d[k]\<close> is \<open>map_of\<close>, with
  \<open>None\<close> standing for \<^verbatim>\<open>KeyError\<close>.
\<close>

type_synonym status_map_t = "(pyobj \<times> pyobj) list"

definition DEFAULT_STATUS_MAP :: status_map_t where
  "DEFAULT_STATUS_MAP =
     [(ClassObj BlockedStatusError, ClassObj BlockedStatus),
      (ClassObj WaitingStatusError, ClassObj WaitingStatus),
      (ClassObj MaintenanceStatusError, ClassObj MaintenanceStatus)]"

text \<open>
  The two \<^verbatim>\<open>try\<close> blocks of \<^verbatim>\<open>_validate_status_map\<close>. The \<^verbatim>\<open>TypeError\<close> raised inside
  the \<^verbatim>\<open>try\<close> is itself caught by \<^verbatim>\<open>except TypeError as e\<close> and replaced.
\<close>

definition check_key :: "pyobj \<Rightarrow> pyerr + unit" where
  "check_key exception_type =
     (case (case py_issubclass exception_type Exception of
              Inl e \<Rightarrow> Inl e
            | Inr b \<Rightarrow>
                if \<not> b
                then Inl (TypeError [Text ''status_map key '', Fmt exception_type,
                                     Text '' is not a subclass of Exception''] None)
                else Inr ()) of
        Inl e \<Rightarrow>
          (case e of
             TypeError m c \<Rightarrow>
               Inl (TypeError [Text ''status_map key '', Fmt exception_type,
                               Text '' is not a class''] (Some e))
           | _ \<Rightarrow> Inl e)
      | Inr u \<Rightarrow> Inr u)"

definition check_value :: "pyobj \<Rightarrow> pyerr + unit" where
  "check_value status_type =
     (case (case py_issubclass status_type StatusBase of
              Inl e \<Rightarrow> Inl e
            | Inr b \<Rightarrow>
                if \<not> b
                then Inl (TypeError [Text ''status_map value '', Fmt status_type,
                                     Text '' is not a subclass of StatusBase''] None)
                else Inr ()) of
        Inl e \<Rightarrow>
          (case e of
             TypeError m c \<Rightarrow>
               Inl (TypeError [Text ''status_map value '', Fmt status_type,
                               Text '' is not a class''] (Some e))
           | _ \<Rightarrow> Inl e)
      | Inr u \<Rightarrow> Inr u)"

fun validate_status_map :: "status_map_t \<Rightarrow> pyerr + unit" where
  "validate_status_map [] = Inr ()"
| "validate_status_map ((exception_type, status_type) # rest) =
     (case check_key exception_type of
        Inl e \<Rightarrow> Inl e
      | Inr u \<Rightarrow>
          (case check_value status_type of
             Inl e \<Rightarrow> Inl e
           | Inr u' \<Rightarrow> validate_status_map rest))"

section \<open>The selector \<^verbatim>\<open>get_first_worst_status\<close>\<close>

text \<open>
  The \<^verbatim>\<open>TypeError\<close> of the loop's final \<^verbatim>\<open>else\<close>, with the f-string of the source.
\<close>

definition unrecognized_error :: "pyobj \<Rightarrow> pyerr" where
  "unrecognized_error status =
     TypeError
       [Text ''found status '', Fmt status,
        Text '', expected statuses of one of [BlockedStatus, WaitingStatus, MaintenanceStatus, ActiveStatus]'']
       None"

record scan_state =
  blocked :: pyobj
  waiting :: pyobj
  maintenance :: pyobj
  active :: pyobj

text \<open>
  The \<^verbatim>\<open>for\<close> loop: \<open>Inr\<close> is the state when the loop ends (at the end of the list or at
  \<^verbatim>\<open>break\<close>), \<open>Inl\<close> the \<^verbatim>\<open>TypeError\<close> of the final \<^verbatim>\<open>else\<close>.
\<close>

fun scan :: "pyobj list \<Rightarrow> scan_state \<Rightarrow> pyerr + scan_state" where
  "scan [] st = Inr st"
| "scan (status # rest) st =
     (if isinstance status BlockedStatus then Inr (st\<lparr>blocked := status\<rparr>)
      else if isinstance status WaitingStatus
        then scan rest (st\<lparr>waiting := py_or (waiting st) status\<rparr>)
      else if isinstance status MaintenanceStatus
        then scan rest (st\<lparr>maintenance := py_or (maintenance st) status\<rparr>)
      else if isinstance status ActiveStatus
        then scan rest (st\<lparr>active := py_or (active st) status\<rparr>)
      else Inl (unrecognized_error status))"

definition get_first_worst_status :: "pyobj list \<Rightarrow> pyerr + pyobj" where
  "get_first_worst_status statuses =
     (if length statuses = 0 then Inl (ValueError [Text ''No statuses provided''])
      else
        (case scan statuses
                \<lparr>blocked = NoneObj, waiting = NoneObj, maintenance = NoneObj, active = NoneObj\<rparr> of
           Inl e \<Rightarrow> Inl e
         | Inr st \<Rightarrow>
             Inr (py_or (py_or (py_or (blocked st) (waiting st)) (maintenance st)) (active st))))"

section \<open>The context manager \<^verbatim>\<open>StatusManager\<close>\<close>

record StatusManager =
  statuses :: "pyobj list"
  status_map :: status_map_t

text \<open>
  \<^verbatim>\<open>__init__\<close>: an argument that is \<^verbatim>\<open>None\<close> or an empty dict is false, and the default
  map takes its place before validation.
\<close>

definition StatusManager_init :: "status_map_t option \<Rightarrow> pyerr + StatusManager" where
  "StatusManager_init arg =
     (let m = (case arg of
                 None \<Rightarrow> DEFAULT_STATUS_MAP
               | Some d \<Rightarrow> if d = [] then DEFAULT_STATUS_MAP else d)
      in case validate_status_map m of
           Inl e \<Rightarrow> Inl e
         | Inr u \<Rightarrow> Inr \<lparr>statuses = [], status_map = m\<rparr>)"

definition StatusManager_enter :: "StatusManager \<Rightarrow> StatusManager" where
  "StatusManager_enter sm = sm"

text \<open>
  \<^verbatim>\<open>__exit__(exc_type, exc_val, exc_tb)\<close>: the result is the returned flag and the updated
  manager. With no exception the interpreter passes \<^verbatim>\<open>None\<close> for both arguments.
\<close>

definition py_str_exc :: "exception option \<Rightarrow> string" where
  "py_str_exc exc_val = (case exc_val of None \<Rightarrow> ''None'' | Some e \<Rightarrow> exc_text e)"

definition StatusManager_exit ::
  "StatusManager \<Rightarrow> pyobj \<Rightarrow> exception option \<Rightarrow> pyerr + (bool \<times> StatusManager)" where
  "StatusManager_exit sm exc_type exc_val =
     (case map_of (status_map sm) exc_type of
        None \<Rightarrow> Inr (False, sm)
      | Some status_type \<Rightarrow>
          (case py_call status_type (py_str_exc exc_val) of
             Inl e \<Rightarrow> Inl e
           | Inr s \<Rightarrow> Inr (True, sm\<lparr>statuses := statuses sm @ [s]\<rparr>)))"

definition StatusManager_len :: "StatusManager \<Rightarrow> nat" where
  "StatusManager_len sm = length (statuses sm)"

definition worst :: "StatusManager \<Rightarrow> pyerr + pyobj" where
  "worst sm =
     (if StatusManager_len sm = 0 then py_call (ClassObj ActiveStatus) ''''
      else get_first_worst_status (statuses sm))"

text \<open>
  One \<^verbatim>\<open>with status_manager:\<close> block around a task that either returns or raises. The
  result is what propagates to the caller (\<open>None\<close> when the block exits cleanly) and the
  manager afterwards. A true flag from \<^verbatim>\<open>__exit__\<close> suppresses the exception; otherwise
  the same exception is raised again.
\<close>

datatype task = Returns | Raises exception

definition with_scope :: "StatusManager \<Rightarrow> task \<Rightarrow> pyerr option \<times> StatusManager" where
  "with_scope sm t =
     (case t of
        Returns \<Rightarrow>
          (case StatusManager_exit (StatusManager_enter sm) NoneObj None of
             Inl e \<Rightarrow> (Some e, sm)
           | Inr (flag, sm') \<Rightarrow> (None, sm'))
      | Raises exc \<Rightarrow>
          (case StatusManager_exit (StatusManager_enter sm) (ClassObj (exc_class exc)) (Some exc) of
             Inl e \<Rightarrow> (Some e, sm)
           | Inr (flag, sm') \<Rightarrow> (if flag then None else Some (Raised exc), sm')))"

text \<open>
  The caller's loop \<^verbatim>\<open>for task in tasks: with sm: task()\<close>: it ends at the first exception
  that leaves a block.
\<close>

fun run_tasks :: "StatusManager \<Rightarrow> task list \<Rightarrow> pyerr option \<times> StatusManager" where
  "run_tasks sm [] = (None, sm)"
| "run_tasks sm (t # ts) =
     (case with_scope sm t of
        (None, sm') \<Rightarrow> run_tasks sm' ts
      | (Some e, sm') \<Rightarrow> (Some e, sm'))"

section \<open>Notions of the specification\<close>

text \<open>
  The four severity tiers, worst first, each with the status class that carries it. An
  object belongs to a tier when it is an instance of the tier's class, the test the
  selector itself applies.
\<close>

datatype tier = Blocked | Waiting | Maintenance | Active

fun tier_class :: "tier \<Rightarrow> pyclass" where
  "tier_class Blocked = BlockedStatus"
| "tier_class Waiting = WaitingStatus"
| "tier_class Maintenance = MaintenanceStatus"
| "tier_class Active = ActiveStatus"

text \<open>Severity as a number: the smaller, the more severe.\<close>

fun rank :: "tier \<Rightarrow> nat" where
  "rank Blocked = 0"
| "rank Waiting = 1"
| "rank Maintenance = 2"
| "rank Active = 3"

definition cls_in_tier :: "pyclass \<Rightarrow> tier \<Rightarrow> bool" where
  "cls_in_tier c t = issubclass c (tier_class t)"

definition in_tier :: "pyobj \<Rightarrow> tier \<Rightarrow> bool" where
  "in_tier x t = cls_in_tier (type_of x) t"

definition recognized :: "pyobj \<Rightarrow> bool" where
  "recognized x =
     (in_tier x Blocked \<or> in_tier x Waiting \<or> in_tier x Maintenance \<or> in_tier x Active)"

text \<open>
  The selection as the specification words it, computed from the classes of the elements
  alone: the most severe tier that occurs, and the position of its first occurrence.
\<close>

definition spec_worst_tier :: "pyclass list \<Rightarrow> tier" where
  "spec_worst_tier cs =
     (if \<exists>c \<in> set cs. cls_in_tier c Blocked then Blocked
      else if \<exists>c \<in> set cs. cls_in_tier c Waiting then Waiting
      else if \<exists>c \<in> set cs. cls_in_tier c Maintenance then Maintenance
      else Active)"

definition first_index :: "('a \<Rightarrow> bool) \<Rightarrow> 'a list \<Rightarrow> nat" where
  "first_index P xs = length (takeWhile (\<lambda>x. \<not> P x) xs)"

definition spec_worst_index :: "pyclass list \<Rightarrow> nat" where
  "spec_worst_index cs = first_index (\<lambda>c. cls_in_tier c (spec_worst_tier cs)) cs"

text \<open>
  What the validation accepts as a key and as a value, and what the specification asks of
  a value: a status class of one of the four tiers.
\<close>

fun is_exception_class :: "pyobj \<Rightarrow> bool" where
  "is_exception_class (ClassObj c) = issubclass c Exception"
| "is_exception_class x = False"

fun is_status_class :: "pyobj \<Rightarrow> bool" where
  "is_status_class (ClassObj c) = issubclass c StatusBase"
| "is_status_class x = False"

fun is_tier_class :: "pyobj \<Rightarrow> bool" where
  "is_tier_class (ClassObj c) =
     (cls_in_tier c Blocked \<or> cls_in_tier c Waiting \<or> cls_in_tier c Maintenance
      \<or> cls_in_tier c Active)"
| "is_tier_class x = False"

text \<open>
  Three classes for concrete inputs: a status class of the host framework outside the
  four tiers, a user-defined subclass of a mapped exception class, and a user-defined
  subclass of \<^verbatim>\<open>WaitingStatus\<close> whose \<^verbatim>\<open>__bool__\<close> returns \<^verbatim>\<open>False\<close>.
\<close>

definition ErrorStatus :: pyclass where
  "ErrorStatus = Class ''ErrorStatus'' [StatusBase]"

definition Quiet :: pyclass where
  "Quiet = Class ''Quiet'' [WaitingStatus]"

definition SubBlockedError :: pyclass where
  "SubBlockedError = Class ''SubBlockedError'' [BlockedStatusError]"

text \<open>Auxiliary functions of the proofs: the final \<^verbatim>\<open>or\<close> chain of the selector, the
  first element of a tier, and the status recorded for a caught exception.\<close>

definition finish :: "scan_state \<Rightarrow> pyobj" where
  "finish st = py_or (py_or (py_or (blocked st) (waiting st)) (maintenance st)) (active st)"

definition first_in :: "tier \<Rightarrow> pyobj list \<Rightarrow> pyobj" where
  "first_in t xs = (case find (\<lambda>x. in_tier x t) xs of None \<Rightarrow> NoneObj | Some x \<Rightarrow> x)"

definition recorded :: "status_map_t \<Rightarrow> exception \<Rightarrow> pyobj" where
  "recorded m e =
     (case map_of m (ClassObj (exc_class e)) of
        Some (ClassObj c) \<Rightarrow> Instance c (exc_text e)
      | _ \<Rightarrow> NoneObj)"

section \<open>Basic facts\<close>

lemmas cls_defs = object_cls_def type_cls_def NoneType_def str_cls_def dict_cls_def
  BaseException_def Exception_def BaseStatusError_def BlockedStatusError_def
  WaitingStatusError_def MaintenanceStatusError_def StatusBase_def ActiveStatus_def
  BlockedStatus_def MaintenanceStatus_def WaitingStatus_def ErrorStatus_def SubBlockedError_def
  Quiet_def

lemmas eval_defs = isinstance_def in_tier_def cls_in_tier_def recognized_def
  spec_worst_tier_def spec_worst_index_def first_index_def

lemma tier_class_not_base: "tier_class t \<noteq> StatusBase"
  by (cases t) (simp_all add: cls_defs)

lemma in_tier_isinstance:
  "isinstance x BlockedStatus = in_tier x Blocked"
  "isinstance x WaitingStatus = in_tier x Waiting"
  "isinstance x MaintenanceStatus = in_tier x Maintenance"
  "isinstance x ActiveStatus = in_tier x Active"
  by (simp_all add: in_tier_def cls_in_tier_def isinstance_def)

lemma first_in_Nil: "first_in t [] = NoneObj"
  by (simp add: first_in_def)

lemma first_in_Cons: "first_in t (x # xs) = (if in_tier x t then x else first_in t xs)"
  by (simp add: first_in_def)

lemma py_or_assoc: "py_or (py_or a b) c = py_or a (py_or b c)"
  by (simp add: py_or_def)

lemma py_or_truthy: "truthy a \<Longrightarrow> py_or a b = a"
  by (simp add: py_or_def)

lemma py_or_None: "py_or NoneObj b = b"
  by (simp add: py_or_def)

lemma py_or_None_right: "a = NoneObj \<or> truthy a \<Longrightarrow> py_or a NoneObj = a"
  by (auto simp: py_or_def)

lemma truthy_py_or: "truthy b \<Longrightarrow> truthy (py_or a b)"
  by (simp add: py_or_def)

section \<open>The loop of the selector\<close>

text \<open>
  On recognized statuses that are all true the loop never raises, and the \<^verbatim>\<open>or\<close> chain
  over its final state is the chain over the first element of every tier, in order of
  severity.
\<close>

lemma scan_finish:
  assumes "\<forall>x \<in> set xs. recognized x" "active st = NoneObj \<or> truthy (active st)"
    "\<forall>x \<in> set xs. truthy x"
  shows "\<exists>st'. scan xs st = Inr st' \<and> finish st' =
     py_or (first_in Blocked xs)
       (py_or (blocked st)
         (py_or (waiting st) (py_or (first_in Waiting xs)
           (py_or (maintenance st) (py_or (first_in Maintenance xs)
             (py_or (active st) (first_in Active xs)))))))"
  using assms
proof (induction xs arbitrary: st)
  case Nil
  then show ?case
    by (simp add: finish_def py_or_assoc first_in_Nil py_or_None py_or_None_right)
next
  case (Cons x xs)
  have rec: "recognized x" and rest: "\<forall>y \<in> set xs. recognized y"
    using Cons.prems(1) by simp_all
  have tx: "truthy x" and trest: "\<forall>y \<in> set xs. truthy y"
    using Cons.prems(3) by simp_all
  show ?case
  proof (cases "in_tier x Blocked")
    case True
    then show ?thesis
      by (simp add: in_tier_isinstance finish_def first_in_Cons py_or_assoc py_or_truthy tx)
  next
    case nB: False
    show ?thesis
    proof (cases "in_tier x Waiting")
      case True
      let ?st = "st\<lparr>waiting := py_or (waiting st) x\<rparr>"
      from Cons.IH [of ?st] rest trest Cons.prems(2)
      obtain st' where "scan xs ?st = Inr st'" and
        "finish st' = py_or (first_in Blocked xs) (py_or (blocked st) (py_or (waiting st) x))"
        by (auto simp: py_or_assoc py_or_truthy tx)
      then show ?thesis using nB True
        by (simp add: in_tier_isinstance first_in_Cons py_or_truthy tx)
    next
      case nW: False
      show ?thesis
      proof (cases "in_tier x Maintenance")
        case True
        let ?st = "st\<lparr>maintenance := py_or (maintenance st) x\<rparr>"
        from Cons.IH [of ?st] rest trest Cons.prems(2)
        obtain st' where "scan xs ?st = Inr st'" and
          "finish st' = py_or (first_in Blocked xs) (py_or (blocked st)
             (py_or (waiting st) (py_or (first_in Waiting xs) (py_or (maintenance st) x))))"
          by (auto simp: py_or_assoc py_or_truthy tx)
        then show ?thesis using nB nW True
          by (simp add: in_tier_isinstance first_in_Cons py_or_truthy tx)
      next
        case nM: False
        then have A: "in_tier x Active" using rec nB nW by (simp add: recognized_def)
        let ?st = "st\<lparr>active := py_or (active st) x\<rparr>"
        have "truthy (active ?st)" using tx by (simp add: truthy_py_or)
        with Cons.IH [of ?st] rest trest
        obtain st' where "scan xs ?st = Inr st'" and
          "finish st' = py_or (first_in Blocked xs) (py_or (blocked st)
             (py_or (waiting st) (py_or (first_in Waiting xs) (py_or (maintenance st)
               (py_or (first_in Maintenance xs) (py_or (active st) x))))))"
          by (auto simp: py_or_assoc py_or_truthy tx)
        then show ?thesis using nB nW nM A
          by (simp add: in_tier_isinstance first_in_Cons py_or_truthy tx)
      qed
    qed
  qed
qed

lemma get_first_worst_status_chain:
  assumes "xs \<noteq> []" "\<forall>x \<in> set xs. recognized x" "\<forall>x \<in> set xs. truthy x"
  shows "get_first_worst_status xs =
     Inr (py_or (first_in Blocked xs) (py_or (first_in Waiting xs)
            (py_or (first_in Maintenance xs) (first_in Active xs))))"
proof -
  let ?st = "\<lparr>blocked = NoneObj, waiting = NoneObj, maintenance = NoneObj, active = NoneObj\<rparr>"
  from scan_finish [of xs ?st] assms(2,3)
  obtain st' where "scan xs ?st = Inr st'" and
    "finish st' = py_or (first_in Blocked xs) (py_or (first_in Waiting xs)
            (py_or (first_in Maintenance xs) (first_in Active xs)))"
    by (auto simp: py_or_None)
  then show ?thesis using assms(1)
    by (simp add: get_first_worst_status_def finish_def)
qed

text \<open>The first position where a predicate holds, and \<open>find\<close>.\<close>

lemma first_index_map: "first_index P (map f xs) = first_index (\<lambda>x. P (f x)) xs"
  by (simp add: first_index_def takeWhile_map comp_def)

lemma first_index_find:
  "\<exists>x \<in> set xs. P x \<Longrightarrow>
     first_index P xs < length xs \<and> find P xs = Some (xs ! first_index P xs)
     \<and> P (xs ! first_index P xs) \<and> (\<forall>j < first_index P xs. \<not> P (xs ! j))"
proof (induction xs)
  case Nil
  then show ?case by simp
next
  case (Cons x xs)
  show ?case
  proof (cases "P x")
    case True
    then show ?thesis by (simp add: first_index_def)
  next
    case False
    with Cons.prems have "\<exists>y \<in> set xs. P y" by simp
    from Cons.IH [OF this] False show ?thesis
      by (auto simp: first_index_def less_Suc_eq_0_disj)
  qed
qed

lemma first_in_none: "\<forall>x \<in> set xs. \<not> in_tier x t \<Longrightarrow> first_in t xs = NoneObj"
  by (induction xs) (simp_all add: first_in_Nil first_in_Cons)

lemma first_in_some:
  assumes "\<exists>x \<in> set xs. in_tier x t"
  shows "first_in t xs = xs ! first_index (\<lambda>x. in_tier x t) xs"
  using first_index_find [OF assms] by (simp add: first_in_def)

lemma spec_worst_tier_present:
  assumes "xs \<noteq> []" "\<forall>x \<in> set xs. recognized x"
  shows "\<exists>x \<in> set xs. in_tier x (spec_worst_tier (map type_of xs))"
proof -
  from assms obtain y where y: "y \<in> set xs" "recognized y" by (cases xs) auto
  then show ?thesis
    unfolding spec_worst_tier_def recognized_def in_tier_def by auto
qed

lemma spec_worst_tier_least:
  "x \<in> set xs \<Longrightarrow> in_tier x t' \<Longrightarrow> rank (spec_worst_tier (map type_of xs)) \<le> rank t'"
  unfolding spec_worst_tier_def in_tier_def by (cases t') auto

lemma spec_worst_index_first:
  assumes "xs \<noteq> []" "\<forall>x \<in> set xs. recognized x"
  shows "spec_worst_index (map type_of xs) < length xs"
    and "in_tier (xs ! spec_worst_index (map type_of xs)) (spec_worst_tier (map type_of xs))"
    and "\<forall>j < spec_worst_index (map type_of xs).
           \<not> in_tier (xs ! j) (spec_worst_tier (map type_of xs))"
proof -
  let ?t = "spec_worst_tier (map type_of xs)"
  have ex: "\<exists>x \<in> set xs. in_tier x ?t" using assms by (rule spec_worst_tier_present)
  have idx: "first_index (\<lambda>x. in_tier x ?t) xs = spec_worst_index (map type_of xs)"
    by (simp add: spec_worst_index_def first_index_map in_tier_def)
  from first_index_find [OF ex]
  show "spec_worst_index (map type_of xs) < length xs"
    and "in_tier (xs ! spec_worst_index (map type_of xs)) ?t"
    and "\<forall>j < spec_worst_index (map type_of xs). \<not> in_tier (xs ! j) ?t"
    unfolding idx by blast+
qed

text \<open>
  What the selector does on statuses that are all true: it returns the first element of
  the most severe tier present.
\<close>

lemma get_first_worst_status_index:
  assumes "xs \<noteq> []" "\<forall>x \<in> set xs. recognized x" "\<forall>x \<in> set xs. truthy x"
  shows "get_first_worst_status xs = Inr (xs ! spec_worst_index (map type_of xs))"
proof -
  let ?t = "spec_worst_tier (map type_of xs)"
  have ex: "\<exists>x \<in> set xs. in_tier x ?t" using assms(1,2) by (rule spec_worst_tier_present)
  have idx: "first_index (\<lambda>x. in_tier x ?t) xs = spec_worst_index (map type_of xs)"
    by (simp add: spec_worst_index_def first_index_map in_tier_def)
  have sel: "first_in ?t xs = xs ! spec_worst_index (map type_of xs)"
    using first_in_some [OF ex] unfolding idx .
  have "xs ! spec_worst_index (map type_of xs) \<in> set xs"
    using spec_worst_index_first(1) [OF assms(1,2)] by simp
  with assms(3) sel have tsel: "truthy (first_in ?t xs)" by simp
  have worse: "first_in t xs = NoneObj" if "rank t < rank ?t" for t
  proof (rule first_in_none, rule ballI, rule notI)
    fix x assume "x \<in> set xs" "in_tier x t"
    then have "rank ?t \<le> rank t" by (rule spec_worst_tier_least)
    with that show False by simp
  qed
  have "py_or (first_in Blocked xs) (py_or (first_in Waiting xs)
            (py_or (first_in Maintenance xs) (first_in Active xs))) = first_in ?t xs"
  proof (cases ?t)
    case Blocked
    with tsel show ?thesis by (simp add: py_or_truthy)
  next
    case Waiting
    with tsel worse [of Blocked] show ?thesis by (simp add: py_or_truthy py_or_None)
  next
    case Maintenance
    with tsel worse [of Blocked] worse [of Waiting] show ?thesis
      by (simp add: py_or_truthy py_or_None)
  next
    case Active
    with tsel worse [of Blocked] worse [of Waiting] worse [of Maintenance] show ?thesis
      by (simp add: py_or_truthy py_or_None)
  qed
  then show ?thesis
    using get_first_worst_status_chain [OF assms] sel by simp
qed

text \<open>
  On statuses that are all true the selector does what its docstring says: the element
  it returns is at a position fixed by the classes alone, belongs to the most severe tier
  present, and is the first element of that tier.
\<close>

lemma selector_on_true_statuses:
  assumes "xs \<noteq> []" "\<forall>x \<in> set xs. recognized x" "\<forall>x \<in> set xs. truthy x"
  shows "\<exists>i t. i = spec_worst_index (map type_of xs) \<and> t = spec_worst_tier (map type_of xs)
           \<and> i < length xs
           \<and> get_first_worst_status xs = Inr (xs ! i)
           \<and> in_tier (xs ! i) t
           \<and> (\<forall>x \<in> set xs. \<forall>t'. in_tier x t' \<longrightarrow> rank t \<le> rank t')
           \<and> (\<forall>j < i. \<not> in_tier (xs ! j) t)"
proof -
  let ?t = "spec_worst_tier (map type_of xs)"
  note spec_worst_index_first [OF assms(1,2)]
  moreover have "\<forall>x \<in> set xs. \<forall>t'. in_tier x t' \<longrightarrow> rank ?t \<le> rank t'"
    by (blast intro: spec_worst_tier_least)
  moreover note get_first_worst_status_index [OF assms]
  ultimately show ?thesis by blast
qed

text \<open>
  The loop leaves at the first \<^verbatim>\<open>BlockedStatus\<close>: what follows it has no part in the
  final state, whatever it is.
\<close>

lemma scan_stops_at_blocked:
  assumes "\<forall>x \<in> set pre. \<not> in_tier x Blocked" "in_tier b Blocked"
  shows "scan (pre @ b # post) st = scan (pre @ [b]) st"
  using assms
  by (induction pre arbitrary: st) (simp_all add: in_tier_isinstance)

text \<open>
  The loop raises at an unrecognized status when it reaches it, that is, when no
  \<^verbatim>\<open>BlockedStatus\<close> comes before it.
\<close>

lemma scan_unrecognized:
  assumes "k < length xs" "\<not> recognized (xs ! k)" "\<forall>j < k. \<not> in_tier (xs ! j) Blocked"
  shows "\<exists>u \<in> set xs. \<not> recognized u \<and> scan xs st = Inl (unrecognized_error u)"
  using assms
proof (induction xs arbitrary: k st)
  case Nil
  then show ?case by simp
next
  case (Cons x xs)
  show ?case
  proof (cases "recognized x")
    case False
    then show ?thesis
      by (simp add: in_tier_isinstance recognized_def)
  next
    case True
    with Cons.prems(2) obtain k' where k: "k = Suc k'" by (cases k) auto
    from Cons.prems(3) k have nB: "\<not> in_tier x Blocked" by auto
    have pre: "k' < length xs" "\<not> recognized (xs ! k')" "\<forall>j < k'. \<not> in_tier (xs ! j) Blocked"
      using Cons.prems k by auto
    have step: "\<exists>st'. scan (x # xs) st = scan xs st'"
      using True nB by (auto simp: in_tier_isinstance recognized_def)
    then obtain st' where "scan (x # xs) st = scan xs st'" ..
    with Cons.IH [OF pre, of st'] show ?thesis by auto
  qed
qed

section \<open>Validation and scope exit\<close>

lemma validate_default: "validate_status_map DEFAULT_STATUS_MAP = Inr ()"
  by (simp add: DEFAULT_STATUS_MAP_def check_key_def check_value_def cls_defs)

lemma check_key_ok: "is_exception_class k \<Longrightarrow> check_key k = Inr ()"
  by (cases k) (simp_all add: check_key_def)

lemma check_key_bad:
  "\<not> is_exception_class k \<Longrightarrow> \<exists>m c. check_key k = Inl (TypeError m c) \<and> Fmt k \<in> set m"
  by (cases k) (simp_all add: check_key_def)

lemma check_value_ok: "is_status_class v \<Longrightarrow> check_value v = Inr ()"
  by (cases v) (simp_all add: check_value_def)

lemma check_value_bad:
  "\<not> is_status_class v \<Longrightarrow> \<exists>m c. check_value v = Inl (TypeError m c) \<and> Fmt v \<in> set m"
  by (cases v) (simp_all add: check_value_def)

lemma validate_rejects:
  assumes "(k, v) \<in> set tbl" "\<not> is_exception_class k \<or> \<not> is_status_class v"
  shows "\<exists>x m c. validate_status_map tbl = Inl (TypeError m c) \<and> Fmt x \<in> set m
           \<and> (x \<in> fst ` set tbl \<and> \<not> is_exception_class x
              \<or> x \<in> snd ` set tbl \<and> \<not> is_status_class x)"
  using assms
proof (induction tbl)
  case Nil
  then show ?case by simp
next
  case (Cons entry tbl)
  obtain k' v' where entry: "entry = (k', v')" by (cases entry)
  show ?case
  proof (cases "is_exception_class k'")
    case False
    from check_key_bad [OF this] obtain m c where
      "check_key k' = Inl (TypeError m c)" "Fmt k' \<in> set m" by blast
    with False entry show ?thesis by force
  next
    case kok: True
    show ?thesis
    proof (cases "is_status_class v'")
      case False
      from check_value_bad [OF this] obtain m c where
        "check_value v' = Inl (TypeError m c)" "Fmt v' \<in> set m" by blast
      with False kok entry show ?thesis by (force simp: check_key_ok)
    next
      case True
      with kok entry Cons.prems have "(k, v) \<in> set tbl" by auto
      from Cons.IH [OF this Cons.prems(2)] obtain x m c where
        "validate_status_map tbl = Inl (TypeError m c)" "Fmt x \<in> set m"
        "x \<in> fst ` set tbl \<and> \<not> is_exception_class x
              \<or> x \<in> snd ` set tbl \<and> \<not> is_status_class x"
        by blast
      then have "validate_status_map (entry # tbl) = Inl (TypeError m c) \<and> Fmt x \<in> set m
           \<and> (x \<in> fst ` set (entry # tbl) \<and> \<not> is_exception_class x
              \<or> x \<in> snd ` set (entry # tbl) \<and> \<not> is_status_class x)"
        using kok True entry by (auto simp: check_key_ok check_value_ok)
      then show ?thesis by blast
    qed
  qed
qed

text \<open>
  A map whose keys are all subclasses of \<^verbatim>\<open>Exception\<close> and whose values are all
  subclasses of \<^verbatim>\<open>StatusBase\<close> passes validation, whatever tier the values have or
  lack, and a manager holding that very map is built.
\<close>

lemma validate_accepts:
  "\<forall>(k, v) \<in> set tbl. is_exception_class k \<and> is_status_class v \<Longrightarrow>
     validate_status_map tbl = Inr ()"
  by (induction tbl) (auto simp: check_key_ok check_value_ok)

lemma valid_status_map_accepted:
  assumes "tbl \<noteq> []" "\<forall>(k, v) \<in> set tbl. is_exception_class k \<and> is_status_class v"
  shows "StatusManager_init (Some tbl) = Inr \<lparr>statuses = [], status_map = tbl\<rparr>"
  using assms(1) validate_accepts [OF assms(2)] by (simp add: StatusManager_init_def)

lemma with_scope_mapped:
  "map_of (status_map sm) (ClassObj (exc_class e)) = Some (ClassObj c) \<Longrightarrow> c \<noteq> StatusBase \<Longrightarrow>
     with_scope sm (Raises e) = (None, sm\<lparr>statuses := statuses sm @ [Instance c (exc_text e)]\<rparr>)"
  by (simp add: with_scope_def StatusManager_exit_def StatusManager_enter_def py_str_exc_def)

lemma run_tasks_mapped:
  assumes "\<forall>e \<in> set es. \<exists>t. map_of (status_map sm) (ClassObj (exc_class e))
                              = Some (ClassObj (tier_class t))"
  shows "run_tasks sm (map Raises es) =
           (None, sm\<lparr>statuses := statuses sm @ map (recorded (status_map sm)) es\<rparr>)"
  using assms
proof (induction es arbitrary: sm)
  case Nil
  then show ?case by simp
next
  case (Cons e es)
  from Cons.prems obtain t where
    t: "map_of (status_map sm) (ClassObj (exc_class e)) = Some (ClassObj (tier_class t))"
    by auto
  let ?sm = "sm\<lparr>statuses := statuses sm @ [Instance (tier_class t) (exc_text e)]\<rparr>"
  have step: "with_scope sm (Raises e) = (None, ?sm)"
    using t tier_class_not_base by (rule with_scope_mapped)
  have "\<forall>e' \<in> set es. \<exists>t. map_of (status_map ?sm) (ClassObj (exc_class e'))
                              = Some (ClassObj (tier_class t))"
    using Cons.prems by simp
  from Cons.IH [OF this] step t show ?case
    by (simp add: recorded_def)
qed

section \<open>The claims\<close>

subsection \<open>The selector\<close>

text \<open>
  Claim C1. The claim is what the docstring promises ("Return the first of the worst
  statuses in the list"), and the code misses it on a status that is false as a Python
  value: \<^verbatim>\<open>waiting = waiting or status\<close> keeps the first status seen only while that
  status is true. Here the first element is an instance of a subclass of
  \<^verbatim>\<open>WaitingStatus\<close> whose \<^verbatim>\<open>__bool__\<close> returns \<^verbatim>\<open>False\<close>; both elements belong to the
  Waiting tier, the claim selects position 0, and the code returns the element at
  position 1.
\<close>

theorem selector_falsy_first_not_returned:
  "recognized (FalsyInstance Quiet ''first'') \<and> recognized (Instance WaitingStatus ''second'')
   \<and> in_tier (FalsyInstance Quiet ''first'') Waiting
   \<and> spec_worst_tier (map type_of [FalsyInstance Quiet ''first'', Instance WaitingStatus ''second''])
       = Waiting
   \<and> spec_worst_index (map type_of [FalsyInstance Quiet ''first'', Instance WaitingStatus ''second''])
       = 0
   \<and> get_first_worst_status [FalsyInstance Quiet ''first'', Instance WaitingStatus ''second'']
       = Inr (Instance WaitingStatus ''second'')"
  by (simp add: get_first_worst_status_def py_or_def eval_defs cls_defs)

text \<open>
  Claim C10. The claim is what the return annotation \<^verbatim>\<open>-> StatusBase\<close> promises, and the
  code misses it by the same use of \<^verbatim>\<open>or\<close>: on a sequence whose only element is a status
  that is false as a Python value, the final
  \<^verbatim>\<open>blocked or waiting or maintenance or active\<close> passes over it and returns \<^verbatim>\<open>None\<close>, which
  is no element of the input.
\<close>

theorem selector_falsy_only_returns_none:
  "recognized (FalsyInstance Quiet ''only'')
   \<and> get_first_worst_status [FalsyInstance Quiet ''only''] = Inr NoneObj
   \<and> NoneObj \<notin> set [FalsyInstance Quiet ''only'']"
  by (simp add: get_first_worst_status_def py_or_def eval_defs cls_defs)

text \<open>
  Claim C7. Called on an empty sequence, the selector fails with the \<^verbatim>\<open>ValueError\<close>
  "No statuses provided" and returns no status; the default for the empty case is given by
  \<^verbatim>\<open>StatusManager.worst\<close> alone, which returns \<^verbatim>\<open>ActiveStatus("")\<close> there.
\<close>

theorem selector_empty_fails:
  "get_first_worst_status [] = Inl (ValueError [Text ''No statuses provided''])
   \<and> worst \<lparr>statuses = [], status_map = m\<rparr> = Inr (Instance ActiveStatus '''')"
  by (simp add: get_first_worst_status_def worst_def StatusManager_len_def cls_defs)

text \<open>
  Claim C4, as stated, fails: a sequence may contain a status outside the four tiers and
  still be answered without an error, because the loop leaves at the first
  \<^verbatim>\<open>BlockedStatus\<close> and never looks at what follows it.
\<close>

theorem selector_unrecognized_after_blocked_counterexample:
  "\<not> recognized (Instance ErrorStatus ''e'')
   \<and> get_first_worst_status [Instance BlockedStatus ''b'', Instance ErrorStatus ''e'']
       = Inr (Instance BlockedStatus ''b'')"
  by (simp add: get_first_worst_status_def py_or_def eval_defs cls_defs)

text \<open>
  Claim C4, amended. For every sequence that contains a status outside the four tiers
  with no \<^verbatim>\<open>BlockedStatus\<close> before it, the selector fails with the \<^verbatim>\<open>TypeError\<close> that
  names a status of the sequence outside the four tiers, whatever else the sequence holds.
  And for every sequence, what follows the first \<^verbatim>\<open>BlockedStatus\<close> is never examined: the
  selector answers as it does on the sequence cut after that status, whatever follows.
\<close>

theorem selector_unrecognized_not_after_blocked_fails:
  "(k < length xs \<and> \<not> recognized (xs ! k) \<and> (\<forall>j < k. \<not> in_tier (xs ! j) Blocked)
      \<longrightarrow> (\<exists>u \<in> set xs. \<not> recognized u
             \<and> get_first_worst_status xs = Inl (unrecognized_error u)))
   \<and> ((\<forall>x \<in> set pre. \<not> in_tier x Blocked) \<and> in_tier b Blocked
      \<longrightarrow> get_first_worst_status (pre @ b # post) = get_first_worst_status (pre @ [b]))"
proof (intro conjI impI)
  assume a: "k < length xs \<and> \<not> recognized (xs ! k) \<and> (\<forall>j < k. \<not> in_tier (xs ! j) Blocked)"
  then have ne: "xs \<noteq> []" by auto
  from a have "k < length xs" "\<not> recognized (xs ! k)" "\<forall>j < k. \<not> in_tier (xs ! j) Blocked"
    by simp_all
  from scan_unrecognized [OF this] obtain u where
    "u \<in> set xs" "\<not> recognized u"
    "scan xs \<lparr>blocked = NoneObj, waiting = NoneObj, maintenance = NoneObj, active = NoneObj\<rparr>
       = Inl (unrecognized_error u)"
    by blast
  then show "\<exists>u \<in> set xs. \<not> recognized u
               \<and> get_first_worst_status xs = Inl (unrecognized_error u)"
    using ne by (auto simp: get_first_worst_status_def)
next
  assume b: "(\<forall>x \<in> set pre. \<not> in_tier x Blocked) \<and> in_tier b Blocked"
  let ?st = "\<lparr>blocked = NoneObj, waiting = NoneObj, maintenance = NoneObj, active = NoneObj\<rparr>"
  from b have "\<forall>x \<in> set pre. \<not> in_tier x Blocked" and "in_tier b Blocked"
    by simp_all
  then have eq: "scan (pre @ b # post) ?st = scan (pre @ [b]) ?st"
    by (rule scan_stops_at_blocked)
  show "get_first_worst_status (pre @ b # post) = get_first_worst_status (pre @ [b])"
    unfolding get_first_worst_status_def eq by simp
qed

theorem selector_unrecognized_not_after_blocked_fails_witness:
  "(1::nat) < length [Instance WaitingStatus ''w'', Instance ErrorStatus ''e'', Instance BlockedStatus ''b'']
   \<and> \<not> recognized ([Instance WaitingStatus ''w'', Instance ErrorStatus ''e'', Instance BlockedStatus ''b''] ! 1)
   \<and> \<not> in_tier (Instance WaitingStatus ''w'') Blocked
   \<and> in_tier (Instance BlockedStatus ''b'') Blocked
   \<and> get_first_worst_status [Instance WaitingStatus ''w'', Instance ErrorStatus ''e'', Instance BlockedStatus ''b'']
       = Inl (unrecognized_error (Instance ErrorStatus ''e''))
   \<and> get_first_worst_status [Instance WaitingStatus ''w'', Instance BlockedStatus ''b'', Instance ErrorStatus ''e'']
       = Inr (Instance BlockedStatus ''b'')"
proof -
  let ?xs = "[Instance WaitingStatus ''w'', Instance ErrorStatus ''e'', Instance BlockedStatus ''b'']"
  have h1: "(1::nat) < length ?xs" by simp
  have h2: "\<not> recognized (?xs ! 1)"
    by (simp add: eval_defs cls_defs)
  have nb: "\<not> in_tier (Instance WaitingStatus ''w'') Blocked"
    by (simp add: eval_defs cls_defs)
  then have h3: "\<forall>j < (1::nat). \<not> in_tier (?xs ! j) Blocked"
    by simp
  have ib: "in_tier (Instance BlockedStatus ''b'') Blocked"
    by (simp add: eval_defs cls_defs)
  have r: "recognized (Instance WaitingStatus ''w'')" "recognized (Instance BlockedStatus ''b'')"
    by (simp_all add: eval_defs cls_defs)
  note thm1 = selector_unrecognized_not_after_blocked_fails
    [of 1 ?xs "[]" NoneObj "[]", THEN conjunct1, rule_format]
  from thm1 h1 h2 h3 r
  have fails: "get_first_worst_status ?xs = Inl (unrecognized_error (Instance ErrorStatus ''e''))"
    by auto
  have nbs: "\<forall>x \<in> set [Instance WaitingStatus ''w'']. \<not> in_tier x Blocked"
    using nb by simp
  note thm2 = selector_unrecognized_not_after_blocked_fails
    [of 0 "[]" "[Instance WaitingStatus ''w'']" "Instance BlockedStatus ''b''"
        "[Instance ErrorStatus ''e'']", THEN conjunct2, rule_format]
  from thm2 nbs ib
  have "get_first_worst_status
          ([Instance WaitingStatus ''w''] @ Instance BlockedStatus ''b'' # [Instance ErrorStatus ''e''])
        = get_first_worst_status ([Instance WaitingStatus ''w''] @ [Instance BlockedStatus ''b''])"
    by blast
  moreover have "get_first_worst_status
        ([Instance WaitingStatus ''w''] @ [Instance BlockedStatus ''b''])
        = Inr (Instance BlockedStatus ''b'')"
    by (simp add: get_first_worst_status_def py_or_def eval_defs cls_defs)
  ultimately have stops: "get_first_worst_status
        [Instance WaitingStatus ''w'', Instance BlockedStatus ''b'', Instance ErrorStatus ''e'']
        = Inr (Instance BlockedStatus ''b'')"
    by simp
  from h1 h2 nb ib fails stops show ?thesis by blast
qed

subsection \<open>Construction and the status map\<close>

text \<open>
  Claim C8. Constructed without a map, the manager uses the built-in default map; that map
  has exactly three entries, which send \<^verbatim>\<open>BlockedStatusError\<close>, \<^verbatim>\<open>WaitingStatusError\<close> and
  \<^verbatim>\<open>MaintenanceStatusError\<close> to the Blocked, Waiting and Maintenance tiers in turn, and none
  of its values is the Active tier.
\<close>

theorem default_status_map_used:
  "StatusManager_init None = Inr \<lparr>statuses = [], status_map = DEFAULT_STATUS_MAP\<rparr>
   \<and> map fst DEFAULT_STATUS_MAP =
       [ClassObj BlockedStatusError, ClassObj WaitingStatusError, ClassObj MaintenanceStatusError]
   \<and> map snd DEFAULT_STATUS_MAP =
       [ClassObj (tier_class Blocked), ClassObj (tier_class Waiting), ClassObj (tier_class Maintenance)]
   \<and> distinct (map fst DEFAULT_STATUS_MAP)
   \<and> ClassObj (tier_class Active) \<notin> set (map snd DEFAULT_STATUS_MAP)"
proof -
  have "StatusManager_init None = Inr \<lparr>statuses = [], status_map = DEFAULT_STATUS_MAP\<rparr>"
    by (simp add: StatusManager_init_def validate_default)
  moreover have "distinct (map fst DEFAULT_STATUS_MAP)"
    by (simp add: DEFAULT_STATUS_MAP_def cls_defs)
  moreover have "ClassObj (tier_class Active) \<notin> set (map snd DEFAULT_STATUS_MAP)"
    by (simp add: DEFAULT_STATUS_MAP_def cls_defs)
  ultimately show ?thesis by (simp add: DEFAULT_STATUS_MAP_def)
qed

text \<open>
  Claim C9. Constructed with an empty map, the manager is the very manager that
  construction without a map gives: the empty map is replaced by the default map, which is
  not empty.
\<close>

theorem empty_map_replaced_by_default:
  "StatusManager_init (Some []) = StatusManager_init None
   \<and> StatusManager_init (Some []) = Inr \<lparr>statuses = [], status_map = DEFAULT_STATUS_MAP\<rparr>
   \<and> DEFAULT_STATUS_MAP \<noteq> []"
  by (simp add: StatusManager_init_def validate_default) (simp add: DEFAULT_STATUS_MAP_def)

text \<open>
  Claim C5, as stated, fails: a map whose values are status classes outside the four
  tiers (\<^verbatim>\<open>StatusBase\<close> itself, or another subclass of it) passes validation, since the
  check on a value is \<^verbatim>\<open>issubclass(status_type, StatusBase)\<close>.
\<close>

theorem non_tier_status_class_accepted_counterexample:
  "\<not> is_tier_class (ClassObj StatusBase) \<and> \<not> is_tier_class (ClassObj ErrorStatus)
   \<and> StatusManager_init (Some [(ClassObj BlockedStatusError, ClassObj StatusBase),
                               (ClassObj WaitingStatusError, ClassObj ErrorStatus)])
       = Inr \<lparr>statuses = [],
              status_map = [(ClassObj BlockedStatusError, ClassObj StatusBase),
                            (ClassObj WaitingStatusError, ClassObj ErrorStatus)]\<rparr>"
  by (simp add: StatusManager_init_def check_key_def check_value_def cls_in_tier_def cls_defs)

text \<open>
  Claim C5, amended. For every map with an entry whose key is not a subclass of
  \<^verbatim>\<open>Exception\<close> or whose value is not a subclass of \<^verbatim>\<open>StatusBase\<close>, construction fails with
  a \<^verbatim>\<open>TypeError\<close> whose message names such a key or value of the map, and no manager is
  built.
\<close>

theorem invalid_status_map_rejected:
  assumes "(k, v) \<in> set tbl" and "\<not> is_exception_class k \<or> \<not> is_status_class v"
  shows "\<exists>x m c. StatusManager_init (Some tbl) = Inl (TypeError m c) \<and> Fmt x \<in> set m
           \<and> (x \<in> fst ` set tbl \<and> \<not> is_exception_class x
              \<or> x \<in> snd ` set tbl \<and> \<not> is_status_class x)"
proof -
  from assms(1) have ne: "tbl \<noteq> []" by auto
  from validate_rejects [OF assms] obtain x m c where
    "validate_status_map tbl = Inl (TypeError m c)" "Fmt x \<in> set m"
    "x \<in> fst ` set tbl \<and> \<not> is_exception_class x \<or> x \<in> snd ` set tbl \<and> \<not> is_status_class x"
    by blast
  then have "StatusManager_init (Some tbl) = Inl (TypeError m c) \<and> Fmt x \<in> set m
           \<and> (x \<in> fst ` set tbl \<and> \<not> is_exception_class x
              \<or> x \<in> snd ` set tbl \<and> \<not> is_status_class x)"
    using ne by (simp add: StatusManager_init_def)
  then show ?thesis by blast
qed

theorem invalid_status_map_rejected_witness:
  "(ClassObj BlockedStatusError, ClassObj dict_cls)
      \<in> set [(ClassObj WaitingStatusError, ClassObj WaitingStatus),
              (ClassObj BlockedStatusError, ClassObj dict_cls)]
   \<and> \<not> is_status_class (ClassObj dict_cls)
   \<and> (\<exists>c. StatusManager_init (Some [(ClassObj WaitingStatusError, ClassObj WaitingStatus),
                                     (ClassObj BlockedStatusError, ClassObj dict_cls)])
            = Inl (TypeError [Text ''status_map value '', Fmt (ClassObj dict_cls),
                              Text '' is not a class''] c))"
proof -
  let ?tbl = "[(ClassObj WaitingStatusError, ClassObj WaitingStatus),
               (ClassObj BlockedStatusError, ClassObj dict_cls)]"
  have h1: "(ClassObj BlockedStatusError, ClassObj dict_cls) \<in> set ?tbl" by simp
  have nv: "\<not> is_status_class (ClassObj dict_cls)" by (simp add: cls_defs)
  then have h2: "\<not> is_exception_class (ClassObj BlockedStatusError)
                 \<or> \<not> is_status_class (ClassObj dict_cls)"
    by simp
  from invalid_status_map_rejected [OF h1 h2]
  obtain x m c where r: "StatusManager_init (Some ?tbl) = Inl (TypeError m c)"
    by blast
  have "StatusManager_init (Some ?tbl)
          = Inl (TypeError [Text ''status_map value '', Fmt (ClassObj dict_cls),
                            Text '' is not a class'']
                   (Some (TypeError [Text ''status_map value '', Fmt (ClassObj dict_cls),
                                     Text '' is not a subclass of StatusBase''] None)))"
    by (simp add: StatusManager_init_def check_key_def check_value_def cls_defs)
  with r have "\<exists>c. StatusManager_init (Some ?tbl)
          = Inl (TypeError [Text ''status_map value '', Fmt (ClassObj dict_cls),
                            Text '' is not a class''] c)"
    by simp
  with h1 nv show ?thesis by blast
qed

subsection \<open>Scope exit\<close>

text \<open>
  Claim C2. On a manager with nothing recorded yet, run \<open>N\<close> tasks in scopes, each
  raising an exception whose exact class is a key of the map, mapped to the class of one
  of the four tiers. Then no exception leaves any scope, \<^verbatim>\<open>len\<close> of the manager is \<open>N\<close>
  afterwards, and the \<open>i\<close>-th recorded status is the instance of the tier class mapped
  from the class of the \<open>i\<close>-th exception, with the text of that exception as message.
\<close>

theorem mapped_errors_recorded_in_order:
  assumes "statuses sm = []"
    and "\<forall>e \<in> set es. \<exists>t. map_of (status_map sm) (ClassObj (exc_class e))
                             = Some (ClassObj (tier_class t))"
  shows "\<exists>sm'. run_tasks sm (map Raises es) = (None, sm')
           \<and> StatusManager_len sm' = length es
           \<and> (\<forall>i < length es. \<exists>t.
                 map_of (status_map sm) (ClassObj (exc_class (es ! i)))
                   = Some (ClassObj (tier_class t))
                 \<and> statuses sm' ! i = Instance (tier_class t) (exc_text (es ! i)))"
proof -
  let ?sm' = "sm\<lparr>statuses := statuses sm @ map (recorded (status_map sm)) es\<rparr>"
  have run: "run_tasks sm (map Raises es) = (None, ?sm')"
    using assms(2) by (rule run_tasks_mapped)
  have len: "StatusManager_len ?sm' = length es"
    using assms(1) by (simp add: StatusManager_len_def)
  have each: "\<exists>t. map_of (status_map sm) (ClassObj (exc_class (es ! i)))
                    = Some (ClassObj (tier_class t))
                 \<and> statuses ?sm' ! i = Instance (tier_class t) (exc_text (es ! i))"
    if "i < length es" for i
  proof -
    from that assms(2) obtain t where
      t: "map_of (status_map sm) (ClassObj (exc_class (es ! i))) = Some (ClassObj (tier_class t))"
      by (meson nth_mem)
    then have "recorded (status_map sm) (es ! i) = Instance (tier_class t) (exc_text (es ! i))"
      by (simp add: recorded_def)
    with t that assms(1) show ?thesis by (intro exI [of _ t]) simp
  qed
  from run len each show ?thesis by blast
qed

theorem mapped_errors_recorded_in_order_witness:
  "statuses \<lparr>statuses = [], status_map = DEFAULT_STATUS_MAP\<rparr> = []
   \<and> map_of DEFAULT_STATUS_MAP (ClassObj WaitingStatusError) = Some (ClassObj (tier_class Waiting))
   \<and> map_of DEFAULT_STATUS_MAP (ClassObj BlockedStatusError) = Some (ClassObj (tier_class Blocked))
   \<and> fst (run_tasks \<lparr>statuses = [], status_map = DEFAULT_STATUS_MAP\<rparr>
             [Raises (Exc WaitingStatusError ''0''), Raises (Exc BlockedStatusError ''1'')]) = None
   \<and> StatusManager_len
        (snd (run_tasks \<lparr>statuses = [], status_map = DEFAULT_STATUS_MAP\<rparr>
               [Raises (Exc WaitingStatusError ''0''), Raises (Exc BlockedStatusError ''1'')])) = 2
   \<and> statuses
        (snd (run_tasks \<lparr>statuses = [], status_map = DEFAULT_STATUS_MAP\<rparr>
               [Raises (Exc WaitingStatusError ''0''), Raises (Exc BlockedStatusError ''1'')]))
       = [Instance WaitingStatus ''0'', Instance BlockedStatus ''1'']"
proof -
  let ?sm = "\<lparr>statuses = [], status_map = DEFAULT_STATUS_MAP\<rparr>"
  let ?es = "[Exc WaitingStatusError ''0'', Exc BlockedStatusError ''1'']"
  have h1: "statuses ?sm = []" by simp
  have w: "map_of DEFAULT_STATUS_MAP (ClassObj WaitingStatusError)
             = Some (ClassObj (tier_class Waiting))"
    by (simp add: DEFAULT_STATUS_MAP_def cls_defs)
  have b: "map_of DEFAULT_STATUS_MAP (ClassObj BlockedStatusError)
             = Some (ClassObj (tier_class Blocked))"
    by (simp add: DEFAULT_STATUS_MAP_def cls_defs)
  have h2: "\<forall>e \<in> set ?es. \<exists>t. map_of (status_map ?sm) (ClassObj (exc_class e))
               = Some (ClassObj (tier_class t))"
    using w b by (auto simp del: tier_class.simps)
  from mapped_errors_recorded_in_order [OF h1 h2]
  obtain sm' where run: "run_tasks ?sm (map Raises ?es) = (None, sm')"
    and len: "StatusManager_len sm' = length ?es"
    by blast
  from run len have r1: "fst (run_tasks ?sm (map Raises ?es)) = None"
    and r2: "StatusManager_len (snd (run_tasks ?sm (map Raises ?es))) = 2"
    by simp_all
  have r3: "statuses (snd (run_tasks ?sm (map Raises ?es)))
              = [Instance WaitingStatus ''0'', Instance BlockedStatus ''1'']"
    by (simp add: with_scope_def StatusManager_exit_def StatusManager_enter_def py_str_exc_def
        DEFAULT_STATUS_MAP_def cls_defs)
  from h1 w b r1 r2 r3 show ?thesis by simp
qed

text \<open>
  Claim C3. When the exact class of the exception raised in a scope is not a key of the
  map (as for an instance of a proper subclass of a mapped class), \<^verbatim>\<open>__exit__\<close> returns
  \<^verbatim>\<open>False\<close> and leaves the manager as it was, so the same exception leaves the scope and
  the recorded statuses are unchanged.
\<close>

theorem unmapped_error_propagates:
  assumes "map_of (status_map sm) (ClassObj (exc_class e)) = None"
  shows "StatusManager_exit sm (ClassObj (exc_class e)) (Some e) = Inr (False, sm)
         \<and> with_scope sm (Raises e) = (Some (Raised e), sm)"
  using assms
  by (simp add: with_scope_def StatusManager_exit_def StatusManager_enter_def)

theorem unmapped_error_propagates_witness:
  "issubclass SubBlockedError BlockedStatusError
   \<and> SubBlockedError \<noteq> BlockedStatusError
   \<and> map_of DEFAULT_STATUS_MAP (ClassObj BlockedStatusError) = Some (ClassObj BlockedStatus)
   \<and> map_of (status_map \<lparr>statuses = [Instance WaitingStatus ''w''], status_map = DEFAULT_STATUS_MAP\<rparr>)
        (ClassObj (exc_class (Exc SubBlockedError ''boom''))) = None
   \<and> with_scope \<lparr>statuses = [Instance WaitingStatus ''w''], status_map = DEFAULT_STATUS_MAP\<rparr>
        (Raises (Exc SubBlockedError ''boom''))
       = (Some (Raised (Exc SubBlockedError ''boom'')),
          \<lparr>statuses = [Instance WaitingStatus ''w''], status_map = DEFAULT_STATUS_MAP\<rparr>)"
proof -
  let ?sm = "\<lparr>statuses = [Instance WaitingStatus ''w''], status_map = DEFAULT_STATUS_MAP\<rparr>"
  have s: "issubclass SubBlockedError BlockedStatusError" "SubBlockedError \<noteq> BlockedStatusError"
    "map_of DEFAULT_STATUS_MAP (ClassObj BlockedStatusError) = Some (ClassObj BlockedStatus)"
    by (simp_all add: DEFAULT_STATUS_MAP_def cls_defs)
  have h: "map_of (status_map ?sm) (ClassObj (exc_class (Exc SubBlockedError ''boom''))) = None"
    by (simp add: DEFAULT_STATUS_MAP_def cls_defs)
  show ?thesis using s h unmapped_error_propagates [OF h] by simp
qed

subsection \<open>The worst status of a manager\<close>

text \<open>
  Claim C6. On every manager with no recorded status, \<^verbatim>\<open>worst\<close> returns, without
  failing, the \<^verbatim>\<open>ActiveStatus\<close> whose message is the empty string.
\<close>

theorem worst_of_nothing_recorded:
  "statuses sm = [] \<Longrightarrow> worst sm = Inr (Instance ActiveStatus '''')"
  by (simp add: worst_def StatusManager_len_def cls_defs)

theorem worst_of_nothing_recorded_witness:
  "statuses \<lparr>statuses = [], status_map = DEFAULT_STATUS_MAP\<rparr> = []
   \<and> worst \<lparr>statuses = [], status_map = DEFAULT_STATUS_MAP\<rparr> = Inr (Instance ActiveStatus '''')
   \<and> in_tier (Instance ActiveStatus '''') Active"
proof -
  have h: "statuses \<lparr>statuses = [], status_map = DEFAULT_STATUS_MAP\<rparr> = []" by simp
  show ?thesis using h worst_of_nothing_recorded [OF h]
    by (simp add: eval_defs cls_defs)
qed

end
